theory Spec2Isabelle
  imports Complex_Main "HOL-Library.Word" "HOL-Library.Sublist"
begin

section \<open>Values of the host language\<close>

text \<open>
  A JavaScript string is a sequence of UTF-16 code units; \<open>===\<close> on strings compares
  these sequences. \<open>js\<close> writes an ASCII literal as such a sequence.
\<close>

type_synonym jsstring = "16 word list"

definition js :: "string \<Rightarrow> jsstring" where
  "js s = map (\<lambda>c. of_nat (of_char c)) s"

text \<open>
  A JavaScript number is an IEEE-754 double. The program never computes with numbers, it
  only stores them, tests \<open>typeof\<close> and hands them to the JSON functions, so a finite double
  is represented by its exact value (which identifies \<open>-0\<close> and \<open>0\<close>, as \<open>===\<close> does),
  next to the three values that are not finite.
\<close>

datatype number = Finite rat | NaN | PosInfinity | NegInfinity

fun is_finite :: "number \<Rightarrow> bool" where
  "is_finite (Finite q) = True"
| "is_finite NaN = False"
| "is_finite PosInfinity = False"
| "is_finite NegInfinity = False"

text \<open>
  \<open>String.prototype.trim\<close> removes the leading and the trailing code units that are
  WhiteSpace or LineTerminator in ECMAScript: TAB, LF, VT, FF, CR, SP, NBSP, U+1680,
  U+2000 to U+200A, LS, PS, U+202F, U+205F, U+3000 and the byte order mark.
\<close>

definition is_ws :: "16 word \<Rightarrow> bool" where
  "is_ws c \<longleftrightarrow>
     c = 0x0009 \<or> c = 0x000A \<or> c = 0x000B \<or> c = 0x000C \<or> c = 0x000D \<or> c = 0x0020 \<or>
     c = 0x00A0 \<or> c = 0x1680 \<or> (0x2000 \<le> c \<and> c \<le> 0x200A) \<or> c = 0x2028 \<or>
     c = 0x2029 \<or> c = 0x202F \<or> c = 0x205F \<or> c = 0x3000 \<or> c = 0xFEFF"

definition trim :: "jsstring \<Rightarrow> jsstring" where
  "trim s = rev (dropWhile is_ws (rev (dropWhile is_ws s)))"

section \<open>Types of the application\<close>

text \<open>
  \<open>type Todo = { id: string; text: string; completed: boolean; createdAt: number }\<close>.
  The fields \<open>id\<close> and \<open>text\<close> carry a prime, since both names are taken in Isabelle.
\<close>

record Todo =
  id' :: jsstring
  text' :: jsstring
  completed :: bool
  createdAt :: number

text \<open>
  The discriminated union of actions, one constructor for each \<open>type\<close> tag. The type
  parameter is the array that \<open>hydrate\<close> carries: a list of records where the model works
  on values, a reference where it works on a heap.
\<close>

datatype 'a Action =
    Add jsstring
  | Toggle jsstring
  | Remove jsstring
  | ClearCompleted
  | Hydrate 'a

text \<open>
  The reducer calls \<open>crypto.randomUUID()\<close> and \<open>Date.now()\<close>. Both read the world
  outside the program, so one invocation of the reducer receives what the two calls return
  during that invocation. \<open>Date.now()\<close> is an integral number of milliseconds.
\<close>

record env =
  randomUUID :: jsstring
  Date_now :: int

section \<open>The reducer\<close>

text \<open>
  \<open>todosReducer(state, action)\<close>, one equation for each \<open>case\<close> of the \<open>switch\<close>. The
  \<open>default\<close> branch of the source is unreachable for a value of type \<open>Action\<close>. The
  empty string is the only falsy string, so \<open>!action.text.trim()\<close> is \<open>trim t = []\<close>.
\<close>

fun todosReducer :: "env \<Rightarrow> Todo list \<Rightarrow> Todo list Action \<Rightarrow> Todo list" where
  "todosReducer e state (Hydrate todos) = todos"
| "todosReducer e state (Add t) =
     (if trim t = [] then state
      else \<lparr>id' = randomUUID e, text' = trim t, completed = False,
            createdAt = Finite (of_int (Date_now e))\<rparr> # state)"
| "todosReducer e state (Toggle i) =
     map (\<lambda>t. if id' t = i then t\<lparr>completed := \<not> completed t\<rparr> else t) state"
| "todosReducer e state (Remove i) = filter (\<lambda>t. id' t \<noteq> i) state"
| "todosReducer e state ClearCompleted = filter (\<lambda>t. \<not> completed t) state"

section \<open>Persistence\<close>

text \<open>
  The values that \<open>JSON.parse\<close> returns and \<open>JSON.stringify\<close> accepts. An object is the
  list of its own properties, each name once; \<open>undefined\<close> is \<open>None\<close> where a value
  may be missing.
\<close>

datatype jsvalue =
    JNull
  | JBoolean bool
  | JNumber number
  | JString jsstring
  | JArray "jsvalue list"
  | JObject "(jsstring \<times> jsvalue) list"

fun typeof :: "jsvalue option \<Rightarrow> string" where
  "typeof None = ''undefined''"
| "typeof (Some JNull) = ''object''"
| "typeof (Some (JBoolean b)) = ''boolean''"
| "typeof (Some (JNumber n)) = ''number''"
| "typeof (Some (JString s)) = ''string''"
| "typeof (Some (JArray xs)) = ''object''"
| "typeof (Some (JObject ps)) = ''object''"

text \<open>
  \<open>x?.p\<close> for the property names the program reads (\<open>id\<close>, \<open>text\<close>, \<open>completed\<close>,
  \<open>createdAt\<close>): only an object can have one of them, \<open>null\<close> short-circuits to
  \<open>undefined\<close>, and no prototype of a primitive or of an array defines them.
\<close>

fun get :: "jsvalue \<Rightarrow> jsstring \<Rightarrow> jsvalue option" where
  "get (JObject ps) p = map_of ps p"
| "get JNull p = None"
| "get (JBoolean b) p = None"
| "get (JNumber n) p = None"
| "get (JString s) p = None"
| "get (JArray xs) p = None"

text \<open>The guard of \<open>loadTodos\<close>, the callback given to \<open>parsed.filter\<close>.\<close>

definition is_Todo :: "jsvalue \<Rightarrow> bool" where
  "is_Todo x \<longleftrightarrow>
     typeof (get x (js ''id'')) = ''string'' \<and> typeof (get x (js ''text'')) = ''string'' \<and>
     typeof (get x (js ''completed'')) = ''boolean'' \<and>
     typeof (get x (js ''createdAt'')) = ''number''"

text \<open>
  The guard is a type predicate (\<open>x is Todo\<close>): an element that passes is used as a
  \<open>Todo\<close> from then on. \<open>as_Todo\<close> is that reading of a value, by its four fields
  (a further property that a stored object may have is not part of the record), and
  \<open>Todo_value\<close> is the object that a \<open>Todo\<close> is in memory.
\<close>

definition as_Todo :: "jsvalue \<Rightarrow> Todo option" where
  "as_Todo x =
     (case (get x (js ''id''), get x (js ''text''), get x (js ''completed''),
            get x (js ''createdAt'')) of
        (Some (JString i), Some (JString s), Some (JBoolean c), Some (JNumber n)) \<Rightarrow>
          Some \<lparr>id' = i, text' = s, completed = c, createdAt = n\<rparr>
      | _ \<Rightarrow> None)"

definition Todo_value :: "Todo \<Rightarrow> jsvalue" where
  "Todo_value t =
     JObject [(js ''id'', JString (id' t)), (js ''text'', JString (text' t)),
              (js ''completed'', JBoolean (completed t)),
              (js ''createdAt'', JNumber (createdAt t))]"

text \<open>
  \<open>JSON.parse\<close> and \<open>JSON.stringify\<close> belong to the platform and are parameters of the
  model: \<open>JSON_parse\<close> returns \<open>None\<close> where the built-in throws a SyntaxError.
\<close>

record platform =
  JSON_parse :: "jsstring \<Rightarrow> jsvalue option"
  JSON_stringify :: "jsvalue \<Rightarrow> jsstring"

text \<open>
  What ECMAScript promises of the two together: parsing the text of a value gives the value
  back, except that a number that is not finite has been written as \<open>null\<close>.
  \<open>json_of\<close> is that value and \<open>json_codec P v\<close> says that the platform \<open>P\<close> keeps
  the promise at \<open>v\<close> (with a text that is not empty, as every JSON text is).
\<close>

fun json_of :: "jsvalue \<Rightarrow> jsvalue" where
  "json_of JNull = JNull"
| "json_of (JBoolean b) = JBoolean b"
| "json_of (JNumber n) = (if is_finite n then JNumber n else JNull)"
| "json_of (JString s) = JString s"
| "json_of (JArray xs) = JArray (map json_of xs)"
| "json_of (JObject ps) = JObject (map (\<lambda>(k, v). (k, json_of v)) ps)"

definition json_codec :: "platform \<Rightarrow> jsvalue \<Rightarrow> bool" where
  "json_codec P v \<longleftrightarrow>
     JSON_stringify P v \<noteq> [] \<and> JSON_parse P (JSON_stringify P v) = Some (json_of v)"

text \<open>
  \<open>localStorage\<close>: the stored items, whether the storage can be accessed at all (a
  browser that blocks it throws a SecurityError on every access), and how long a value it
  still takes (\<open>setItem\<close> throws a QuotaExceededError beyond that).
\<close>

datatype exn = SecurityError | QuotaExceededError | SyntaxError

record localStorage =
  items :: "jsstring \<rightharpoonup> jsstring"
  accessible :: bool
  quota :: nat

definition getItem :: "localStorage \<Rightarrow> jsstring \<Rightarrow> exn + jsstring option" where
  "getItem ls k = (if accessible ls then Inr (items ls k) else Inl SecurityError)"

definition setItem :: "localStorage \<Rightarrow> jsstring \<Rightarrow> jsstring \<Rightarrow> exn + localStorage" where
  "setItem ls k v =
     (if \<not> accessible ls then Inl SecurityError
      else if quota ls < length v then Inl QuotaExceededError
      else Inr (ls\<lparr>items := (items ls)(k \<mapsto> v)\<rparr>))"

definition STORAGE_KEY :: jsstring where
  "STORAGE_KEY = js ''ts_todo_app_v1''"

text \<open>
  \<open>loadTodos\<close>. \<open>loadTodos_try\<close> is the body of the \<open>try\<close> block, in which
  \<open>getItem\<close> and \<open>JSON.parse\<close> may throw; \<open>!raw\<close> holds of \<open>null\<close> and of the empty
  string. \<open>loadTodos\<close> adds the \<open>catch\<close>, which returns the empty array.
\<close>

definition loadTodos_try :: "platform \<Rightarrow> localStorage \<Rightarrow> exn + Todo list" where
  "loadTodos_try P ls =
     (case getItem ls STORAGE_KEY of
        Inl ex \<Rightarrow> Inl ex
      | Inr None \<Rightarrow> Inr []
      | Inr (Some raw) \<Rightarrow>
          if raw = [] then Inr []
          else (case JSON_parse P raw of
                  None \<Rightarrow> Inl SyntaxError
                | Some (JArray xs) \<Rightarrow> Inr (List.map_filter as_Todo (filter is_Todo xs))
                | Some _ \<Rightarrow> Inr []))"

definition loadTodos :: "platform \<Rightarrow> localStorage \<Rightarrow> Todo list" where
  "loadTodos P ls = (case loadTodos_try P ls of Inl ex \<Rightarrow> [] | Inr todos \<Rightarrow> todos)"

text \<open>
  \<open>saveTodos\<close> has no \<open>try\<close>: what \<open>setItem\<close> throws leaves the function.
\<close>

definition saveTodos :: "platform \<Rightarrow> Todo list \<Rightarrow> localStorage \<Rightarrow> exn + localStorage" where
  "saveTodos P todos ls =
     setItem ls STORAGE_KEY (JSON_stringify P (JArray (map Todo_value todos)))"

section \<open>Sequences of transitions\<close>

text \<open>
  \<open>useReducer\<close> applies the reducer to the current state once for each dispatched action;
  every application has its own readings of the generator and of the clock.
\<close>

fun run :: "Todo list \<Rightarrow> (env \<times> Todo list Action) list \<Rightarrow> Todo list" where
  "run state [] = state"
| "run state ((e, a) # rest) = run (todosReducer e state a) rest"

text \<open>An action makes the reducer read its environment when it adds a record.\<close>

definition reads_env :: "'a Action \<Rightarrow> bool" where
  "reads_env a = (case a of Add t \<Rightarrow> trim t \<noteq> [] | _ \<Rightarrow> False)"

text \<open>
  The reducer checks no identifier. \<open>keeps_ids_unique e state a\<close> says that the step
  brings none in twice: the generated identifier is not in use, a hydrated array has no
  identifier twice. \<open>unique_run\<close> says so of every step of a sequence.
\<close>

definition keeps_ids_unique :: "env \<Rightarrow> Todo list \<Rightarrow> Todo list Action \<Rightarrow> bool" where
  "keeps_ids_unique e state a =
     (case a of
        Add t \<Rightarrow> trim t = [] \<or> randomUUID e \<notin> set (map id' state)
      | Hydrate todos \<Rightarrow> distinct (map id' todos)
      | _ \<Rightarrow> True)"

fun unique_run :: "Todo list \<Rightarrow> (env \<times> Todo list Action) list \<Rightarrow> bool" where
  "unique_run state [] = True"
| "unique_run state ((e, a) # rest) =
     (keeps_ids_unique e state a \<and> unique_run (todosReducer e state a) rest)"

text \<open>
  Two records are the same task when they agree in what no transition changes: identifier,
  text and creation time.
\<close>

definition same_task :: "Todo \<Rightarrow> Todo \<Rightarrow> bool" where
  "same_task t u \<longleftrightarrow> id' t = id' u \<and> text' t = text' u \<and> createdAt t = createdAt u"

section \<open>The reducer on a heap\<close>

text \<open>
  In the program a record is an object and a collection is an array of references to
  objects, so a function could change a record that its caller still holds. To state that
  the reducer does not, this second model keeps the objects and the arrays in a heap. A
  reference is a position in the heap, creating an object or an array appends it, and a
  write to an existing one would be a list update.

  \<open>todosReducer_heap\<close> is \<open>todosReducer\<close> again with its allocations written out:
  the object literal of \<open>add\<close> and the spread \<open>{ ...t, completed: !t.completed }\<close> of
  \<open>toggle\<close> create an object, the array literal, \<open>map\<close> and \<open>filter\<close> create an
  array, and \<open>hydrate\<close> returns the array of the action itself.
\<close>

record heap =
  objects :: "Todo list"
  arrays :: "nat list list"

definition new_object :: "Todo \<Rightarrow> heap \<Rightarrow> nat \<times> heap" where
  "new_object t h = (length (objects h), h\<lparr>objects := objects h @ [t]\<rparr>)"

definition new_array :: "nat list \<Rightarrow> heap \<Rightarrow> nat \<times> heap" where
  "new_array rs h = (length (arrays h), h\<lparr>arrays := arrays h @ [rs]\<rparr>)"

text \<open>The callback of \<open>state.map\<close> in \<open>toggle\<close>, applied from left to right.\<close>

fun toggle_refs :: "jsstring \<Rightarrow> nat list \<Rightarrow> heap \<Rightarrow> nat list \<times> heap" where
  "toggle_refs i [] h = ([], h)"
| "toggle_refs i (r # rs) h =
     (let t = objects h ! r;
          (r', h') = (if id' t = i then new_object (t\<lparr>completed := \<not> completed t\<rparr>) h
                      else (r, h));
          (rs', h'') = toggle_refs i rs h'
      in (r' # rs', h''))"

fun todosReducer_heap :: "env \<Rightarrow> heap \<Rightarrow> nat \<Rightarrow> nat Action \<Rightarrow> nat \<times> heap" where
  "todosReducer_heap e h state (Hydrate todos) = (todos, h)"
| "todosReducer_heap e h state (Add t) =
     (if trim t = [] then (state, h)
      else (let (r, h') = new_object \<lparr>id' = randomUUID e, text' = trim t, completed = False,
                                       createdAt = Finite (of_int (Date_now e))\<rparr> h
            in new_array (r # arrays h' ! state) h'))"
| "todosReducer_heap e h state (Toggle i) =
     (let (rs, h') = toggle_refs i (arrays h ! state) h in new_array rs h')"
| "todosReducer_heap e h state (Remove i) =
     new_array (filter (\<lambda>r. id' (objects h ! r) \<noteq> i) (arrays h ! state)) h"
| "todosReducer_heap e h state ClearCompleted =
     new_array (filter (\<lambda>r. \<not> completed (objects h ! r)) (arrays h ! state)) h"

text \<open>
  The collection that an array of the heap stands for, and the condition under which it
  stands for one: the array exists and so does every object it refers to. The program
  cannot make a reference to nothing, so this holds of every array it passes around.
\<close>

definition todos_at :: "heap \<Rightarrow> nat \<Rightarrow> Todo list" where
  "todos_at h a = map (\<lambda>r. objects h ! r) (arrays h ! a)"

definition valid_array :: "heap \<Rightarrow> nat \<Rightarrow> bool" where
  "valid_array h a \<longleftrightarrow>
     a < length (arrays h) \<and> list_all (\<lambda>r. r < length (objects h)) (arrays h ! a)"

section \<open>Example data\<close>

definition uuid_milk :: jsstring where
  "uuid_milk = js ''6f1c2a9e-3b7d-4c58-9e21-5a0b8d4f7c13''"

definition uuid_dog :: jsstring where
  "uuid_dog = js ''8b0f6c2e-91d4-4a37-b5e8-2c7f4d1a9e60''"

definition env_milk :: env where
  "env_milk = \<lparr>randomUUID = uuid_milk, Date_now = 1730625000000\<rparr>"

definition env_dog :: env where
  "env_dog = \<lparr>randomUUID = uuid_dog, Date_now = 1730625060000\<rparr>"

definition todo_milk :: Todo where
  "todo_milk = \<lparr>id' = uuid_milk, text' = js ''Buy milk'', completed = False,
                 createdAt = Finite 1730625000000\<rparr>"

definition todo_dog :: Todo where
  "todo_dog = \<lparr>id' = uuid_dog, text' = js ''Walk dog'', completed = False,
                createdAt = Finite 1730625060000\<rparr>"

text \<open>
  Collections and stored texts. Each text is what \<open>JSON.stringify\<close> writes for the
  value next to it in \<open>example_platform\<close>, or a text that a user or another program may
  have left in the slot.
\<close>

definition two_todos :: "Todo list" where
  "two_todos = [todo_dog, todo_milk\<lparr>completed := True\<rparr>]"

definition two_todos_text :: jsstring where
  \<open>two_todos_text =
     js ''[{"id":"8b0f6c2e-91d4-4a37-b5e8-2c7f4d1a9e60","text":"Walk dog",'' @
     js ''"completed":false,"createdAt":1730625060000},'' @
     js ''{"id":"6f1c2a9e-3b7d-4c58-9e21-5a0b8d4f7c13","text":"Buy milk",'' @
     js ''"completed":true,"createdAt":1730625000000}]''\<close>

definition inf_todos :: "Todo list" where
  "inf_todos = [todo_milk\<lparr>createdAt := PosInfinity\<rparr>]"

definition overflow_text :: jsstring where
  \<open>overflow_text =
     js ''[{"id":"6f1c2a9e-3b7d-4c58-9e21-5a0b8d4f7c13","text":"Buy milk",'' @
     js ''"completed":false,"createdAt":1e999}]''\<close>

definition null_text :: jsstring where
  \<open>null_text =
     js ''[{"id":"6f1c2a9e-3b7d-4c58-9e21-5a0b8d4f7c13","text":"Buy milk",'' @
     js ''"completed":false,"createdAt":null}]''\<close>

definition settings_text :: jsstring where
  \<open>settings_text = js ''{"theme":"dark"}''\<close>

definition truncated_text :: jsstring where
  \<open>truncated_text = js ''[{"id":"8b0f6c2e-91d4-4a37-b5e8-2c7f4d1a9e60","text":"Wal''\<close>

definition malformed_value :: jsvalue where
  "malformed_value =
     JObject [(js ''id'', JNumber (Finite 7)), (js ''text'', JString (js ''Buy milk'')),
              (js ''completed'', JString (js ''no''))]"

definition mixed_text :: jsstring where
  \<open>mixed_text =
     js ''[{"id":"8b0f6c2e-91d4-4a37-b5e8-2c7f4d1a9e60","text":"Walk dog",'' @
     js ''"completed":false,"createdAt":1730625060000},'' @
     js ''{"id":7,"text":"Buy milk","completed":"no"}]''\<close>

definition twice_text :: jsstring where
  \<open>twice_text =
     js ''[{"id":"6f1c2a9e-3b7d-4c58-9e21-5a0b8d4f7c13","text":"Buy milk",'' @
     js ''"completed":false,"createdAt":1730625000000},'' @
     js ''{"id":"6f1c2a9e-3b7d-4c58-9e21-5a0b8d4f7c13","text":"Buy milk",'' @
     js ''"completed":false,"createdAt":1730625000000}]''\<close>

text \<open>
  \<open>example_platform\<close> is the platform at the texts and values above: what
  \<open>JSON.parse\<close> returns for each of the texts (the literal \<open>1e999\<close> is beyond the
  doubles and reads as \<open>Infinity\<close>), a SyntaxError for any other text, and what
  \<open>JSON.stringify\<close> writes for the two collections (\<open>null\<close> for \<open>Infinity\<close>).
\<close>

definition example_platform :: platform where
  "example_platform =
     \<lparr>JSON_parse =
        map_of
          [(two_todos_text, JArray (map Todo_value two_todos)),
           (overflow_text, JArray (map Todo_value inf_todos)),
           (null_text,
            JArray [JObject [(js ''id'', JString uuid_milk),
                             (js ''text'', JString (js ''Buy milk'')),
                             (js ''completed'', JBoolean False),
                             (js ''createdAt'', JNull)]]),
           (settings_text, JObject [(js ''theme'', JString (js ''dark''))]),
           (mixed_text, JArray [Todo_value todo_dog, malformed_value]),
           (twice_text, JArray [Todo_value todo_milk, Todo_value todo_milk])],
      JSON_stringify =
        (\<lambda>v. if v = JArray (map Todo_value two_todos) then two_todos_text
             else if v = JArray (map Todo_value inf_todos) then null_text
             else js ''null'')\<rparr>"

definition storage_with :: "jsstring option \<Rightarrow> localStorage" where
  "storage_with raw =
     \<lparr>items = (\<lambda>k. if k = STORAGE_KEY then raw else None), accessible = True,
      quota = 5242880\<rparr>"

definition blocked_storage :: localStorage where
  "blocked_storage = \<lparr>items = Map.empty, accessible = False, quota = 0\<rparr>"

text \<open>
  A heap that holds the collection of the two tasks in its array 0, and the heap after
  \<open>Buy milk\<close> has been toggled there.
\<close>

definition example_heap :: heap where
  "example_heap = \<lparr>objects = [todo_dog, todo_milk], arrays = [[0, 1]]\<rparr>"

definition toggled_heap :: heap where
  "toggled_heap =
     \<lparr>objects = [todo_dog, todo_milk, todo_milk\<lparr>completed := True\<rparr>],
      arrays = [[0, 1], [0, 2]]\<rparr>"

text \<open>
  A session: the application starts on an empty slot, the user adds two tasks, completes
  the first and clears the completed ones.
\<close>

definition scenario :: "(env \<times> Todo list Action) list" where
  "scenario =
     [(env_milk, Hydrate (loadTodos example_platform (storage_with None))),
      (env_milk, Add (js ''Buy milk'')),
      (env_dog, Add (js '' Walk dog  '')),
      (env_dog, Toggle uuid_milk),
      (env_dog, ClearCompleted)]"

section \<open>Facts about the example data\<close>

lemma uuid_dog_not_milk: "uuid_dog \<noteq> uuid_milk"
  by (simp add: uuid_milk_def uuid_dog_def js_def)

lemma trim_empty: "trim (js '''') = []"
  by (simp add: js_def trim_def)

lemma trim_blanks: "trim (js ''   '') = []"
  by (simp add: js_def trim_def is_ws_def)

lemma trim_walk_dog: "trim (js '' Walk dog  '') = js ''Walk dog''"
  by (simp add: js_def trim_def is_ws_def)

lemma trim_buy_milk: "trim (js ''Buy milk'') = js ''Buy milk''"
  by (simp add: js_def trim_def is_ws_def)

lemma walk_dog_not_empty: "js ''Walk dog'' \<noteq> []"
  by (simp add: js_def)

lemma buy_milk_not_empty: "js ''Buy milk'' \<noteq> []"
  by (simp add: js_def)

section \<open>The reducer, action by action\<close>

lemma toggle_ids: "map id' (todosReducer e C (Toggle i)) = map id' C"
  by (induction C) auto

lemma toggle_twice: "todosReducer e2 (todosReducer e1 C (Toggle i)) (Toggle i) = C"
  by (induction C) auto

lemma toggle_absent: "i \<notin> id' ` set C \<Longrightarrow> todosReducer e C (Toggle i) = C"
  by (induction C) auto

lemma remove_absent: "i \<notin> id' ` set C \<Longrightarrow> todosReducer e C (Remove i) = C"
  by (induction C) auto

text \<open>
  C1, as the code has it. Adding a text that is not blank puts one new record in front of
  the collection and leaves the rest as it was. The new record has the trimmed text, is
  not completed and carries the identifier that \<open>crypto.randomUUID()\<close> returned and
  the time that \<open>Date.now()\<close> returned; that identifier is new to the collection when the
  generator's result is not in use there, which the reducer does not check.
\<close>

theorem add_prepends:
  assumes "trim t \<noteq> []"
  shows "length (todosReducer e C (Add t)) = length C + 1 \<and>
         text' (hd (todosReducer e C (Add t))) = trim t \<and>
         completed (hd (todosReducer e C (Add t))) = False \<and>
         id' (hd (todosReducer e C (Add t))) = randomUUID e \<and>
         createdAt (hd (todosReducer e C (Add t))) = Finite (of_int (Date_now e)) \<and>
         (randomUUID e \<notin> id' ` set C \<longrightarrow>
            id' (hd (todosReducer e C (Add t))) \<notin> id' ` set C) \<and>
         tl (todosReducer e C (Add t)) = C"
  using assms by simp

theorem add_prepends_witness:
  "trim (js '' Walk dog  '') \<noteq> [] \<and> randomUUID env_dog \<notin> id' ` set [todo_milk] \<and>
   length (todosReducer env_dog [todo_milk] (Add (js '' Walk dog  ''))) = 2 \<and>
   hd (todosReducer env_dog [todo_milk] (Add (js '' Walk dog  ''))) = todo_dog \<and>
   id' (hd (todosReducer env_dog [todo_milk] (Add (js '' Walk dog  ''))))
     \<notin> id' ` set [todo_milk] \<and>
   tl (todosReducer env_dog [todo_milk] (Add (js '' Walk dog  ''))) = [todo_milk]"
  using add_prepends [where t = "js '' Walk dog  ''" and e = env_dog and C = "[todo_milk]"]
  by (simp add: trim_walk_dog walk_dog_not_empty uuid_dog_not_milk env_dog_def todo_dog_def
      todo_milk_def)

text \<open>
  C1 as the specification states it fails where the generator returns an identifier that
  the collection already holds: the new record then shares its identifier with an old one.
\<close>

theorem add_fresh_id_counterexample:
  "trim (js ''Buy milk'') \<noteq> [] \<and>
   id' (hd (todosReducer env_milk [todo_milk] (Add (js ''Buy milk''))))
     \<in> id' ` set [todo_milk]"
  by (simp add: trim_buy_milk buy_milk_not_empty env_milk_def todo_milk_def)

text \<open>
  C2. Toggling an identifier that occurs in the collection keeps the length; at every
  position, a record with that identifier has its completed flag inverted and nothing else
  changed, and any other record is the one that was there.
\<close>

theorem toggle_flips:
  assumes "i \<in> id' ` set C"
  shows "length (todosReducer e C (Toggle i)) = length C \<and>
         (\<forall>k < length C.
            todosReducer e C (Toggle i) ! k =
              (if id' (C ! k) = i then (C ! k)\<lparr>completed := \<not> completed (C ! k)\<rparr>
               else C ! k))"
  by simp

theorem toggle_flips_witness:
  "uuid_milk \<in> id' ` set [todo_dog, todo_milk] \<and>
   length (todosReducer env_dog [todo_dog, todo_milk] (Toggle uuid_milk)) = 2 \<and>
   todosReducer env_dog [todo_dog, todo_milk] (Toggle uuid_milk) ! 0 = todo_dog \<and>
   todosReducer env_dog [todo_dog, todo_milk] (Toggle uuid_milk) ! 1 =
     todo_milk\<lparr>completed := True\<rparr>"
  using toggle_flips [where i = uuid_milk and C = "[todo_dog, todo_milk]" and e = env_dog]
  by (simp add: uuid_dog_not_milk todo_dog_def todo_milk_def)

text \<open>
  C3. Clearing the completed records leaves exactly the records whose completed flag is
  false, each as it was and in the order of the collection.
\<close>

theorem clearCompleted_keeps_active:
  "todosReducer e C ClearCompleted = filter (\<lambda>t. \<not> completed t) C \<and>
   subseq (todosReducer e C ClearCompleted) C \<and>
   (\<forall>t. t \<in> set (todosReducer e C ClearCompleted) \<longleftrightarrow> t \<in> set C \<and> \<not> completed t)"
  by auto

theorem clearCompleted_keeps_active_witness:
  "todosReducer env_dog [todo_dog, todo_milk\<lparr>completed := True\<rparr>] ClearCompleted = [todo_dog]"
  using clearCompleted_keeps_active
    [where C = "[todo_dog, todo_milk\<lparr>completed := True\<rparr>]" and e = env_dog]
  by (simp add: todo_dog_def todo_milk_def)

text \<open>
  C4. An action without a valid target returns the collection it was given: adding a text
  that trims to nothing (the empty text, three spaces), toggling or removing an identifier
  that no record has. The reducer is a total function, it has no error to report.
\<close>

theorem invalid_target_noop:
  "(trim t = [] \<longrightarrow> todosReducer e C (Add t) = C) \<and>
   todosReducer e C (Add (js '''')) = C \<and>
   todosReducer e C (Add (js ''   '')) = C \<and>
   (i \<notin> id' ` set C \<longrightarrow>
      todosReducer e C (Toggle i) = C \<and> todosReducer e C (Remove i) = C)"
  by (simp add: trim_empty trim_blanks toggle_absent remove_absent
      del: todosReducer.simps(3,4))

theorem invalid_target_noop_witness:
  "trim (js ''   '') = [] \<and> uuid_dog \<notin> id' ` set [todo_milk] \<and>
   todosReducer env_dog [todo_milk] (Add (js ''   '')) = [todo_milk] \<and>
   todosReducer env_dog [todo_milk] (Toggle uuid_dog) = [todo_milk] \<and>
   todosReducer env_dog [todo_milk] (Remove uuid_dog) = [todo_milk]"
  using invalid_target_noop
    [where t = "js ''   ''" and i = uuid_dog and C = "[todo_milk]" and e = env_dog]
  by (simp add: trim_blanks uuid_dog_not_milk todo_milk_def)

text \<open>
  C9. Toggling the same identifier twice gives the collection back, whatever the
  identifier, for every collection with pairwise distinct identifiers.
\<close>

theorem toggle_involution:
  assumes "distinct (map id' C)"
  shows "todosReducer e2 (todosReducer e1 C (Toggle i)) (Toggle i) = C"
  by (rule toggle_twice)

theorem toggle_involution_witness:
  "distinct (map id' [todo_dog, todo_milk]) \<and>
   todosReducer env_dog (todosReducer env_milk [todo_dog, todo_milk] (Toggle uuid_milk))
     (Toggle uuid_milk) = [todo_dog, todo_milk]"
  using toggle_involution
    [where C = "[todo_dog, todo_milk]" and i = uuid_milk and ?e1.0 = env_milk
       and ?e2.0 = env_dog]
  by (simp add: uuid_dog_not_milk todo_dog_def todo_milk_def)

text \<open>
  C10. Every transition keeps the records it retains in their order. After an addition the
  old collection is the end of the new one; after a removal or a clearing the new
  collection is a subsequence of the old one; after a toggle every position holds the
  task it held, and the records with another identifier are the same records in the same
  order.
\<close>

theorem order_preserved:
  "suffix C (todosReducer e C (Add t)) \<and>
   subseq (todosReducer e C (Remove i)) C \<and>
   subseq (todosReducer e C ClearCompleted) C \<and>
   list_all2 same_task (todosReducer e C (Toggle i)) C \<and>
   filter (\<lambda>t. id' t \<noteq> i) (todosReducer e C (Toggle i)) = filter (\<lambda>t. id' t \<noteq> i) C"
proof (intro conjI)
  show "suffix C (todosReducer e C (Add t))"
    by (simp add: suffix_def)
  show "subseq (todosReducer e C (Remove i)) C"
    by simp
  show "subseq (todosReducer e C ClearCompleted) C"
    by simp
  show "list_all2 same_task (todosReducer e C (Toggle i)) C"
    by (induction C) (simp_all add: same_task_def)
  show "filter (\<lambda>t. id' t \<noteq> i) (todosReducer e C (Toggle i)) = filter (\<lambda>t. id' t \<noteq> i) C"
    by (induction C) simp_all
qed

theorem order_preserved_witness:
  "suffix [todo_milk] (todosReducer env_dog [todo_milk] (Add (js '' Walk dog  ''))) \<and>
   subseq (todosReducer env_dog [todo_dog, todo_milk] (Remove uuid_dog)) [todo_dog, todo_milk] \<and>
   todosReducer env_dog [todo_dog, todo_milk] (Remove uuid_dog) = [todo_milk] \<and>
   list_all2 same_task (todosReducer env_dog [todo_dog, todo_milk] (Toggle uuid_milk))
     [todo_dog, todo_milk] \<and>
   filter (\<lambda>t. id' t \<noteq> uuid_milk) (todosReducer env_dog [todo_dog, todo_milk] (Toggle uuid_milk)) =
     [todo_dog]"
  using order_preserved [where C = "[todo_milk]" and e = env_dog and t = "js '' Walk dog  ''"]
    order_preserved [where C = "[todo_dog, todo_milk]" and e = env_dog and i = uuid_dog]
    order_preserved [where C = "[todo_dog, todo_milk]" and e = env_dog and i = uuid_milk]
    uuid_dog_not_milk
  by (simp add: todo_dog_def todo_milk_def)

section \<open>Loading and saving\<close>

lemma keys_distinct:
  "js ''id'' \<noteq> js ''text''" "js ''id'' \<noteq> js ''completed''" "js ''id'' \<noteq> js ''createdAt''"
  "js ''text'' \<noteq> js ''completed''" "js ''text'' \<noteq> js ''createdAt''"
  "js ''completed'' \<noteq> js ''createdAt''"
  "js ''text'' \<noteq> js ''id''" "js ''completed'' \<noteq> js ''id''" "js ''createdAt'' \<noteq> js ''id''"
  "js ''completed'' \<noteq> js ''text''" "js ''createdAt'' \<noteq> js ''text''"
  "js ''createdAt'' \<noteq> js ''completed''"
  by (simp_all add: js_def)

lemma get_Todo_value:
  "get (Todo_value t) (js ''id'') = Some (JString (id' t))"
  "get (Todo_value t) (js ''text'') = Some (JString (text' t))"
  "get (Todo_value t) (js ''completed'') = Some (JBoolean (completed t))"
  "get (Todo_value t) (js ''createdAt'') = Some (JNumber (createdAt t))"
  by (simp_all add: Todo_value_def keys_distinct)

lemma get_json_of_Todo_value:
  "get (json_of (Todo_value t)) (js ''id'') = Some (JString (id' t))"
  "get (json_of (Todo_value t)) (js ''text'') = Some (JString (text' t))"
  "get (json_of (Todo_value t)) (js ''completed'') = Some (JBoolean (completed t))"
  "get (json_of (Todo_value t)) (js ''createdAt'') =
     Some (if is_finite (createdAt t) then JNumber (createdAt t) else JNull)"
  by (simp_all add: Todo_value_def keys_distinct)

text \<open>What the guard accepts, by the shape of the value rather than by \<open>typeof\<close>.\<close>

lemma typeof_string_iff: "typeof v = ''string'' \<longleftrightarrow> (\<exists>s. v = Some (JString s))"
  by (cases v rule: typeof.cases) simp_all

lemma typeof_boolean_iff: "typeof v = ''boolean'' \<longleftrightarrow> (\<exists>b. v = Some (JBoolean b))"
  by (cases v rule: typeof.cases) simp_all

lemma typeof_number_iff: "typeof v = ''number'' \<longleftrightarrow> (\<exists>n. v = Some (JNumber n))"
  by (cases v rule: typeof.cases) simp_all

lemma is_Todo_iff:
  "is_Todo x \<longleftrightarrow>
     (\<exists>i s c n. get x (js ''id'') = Some (JString i) \<and> get x (js ''text'') = Some (JString s) \<and>
        get x (js ''completed'') = Some (JBoolean c) \<and>
        get x (js ''createdAt'') = Some (JNumber n))"
  by (simp add: is_Todo_def typeof_string_iff typeof_boolean_iff typeof_number_iff)

lemma as_Todo_Some_iff:
  "as_Todo x = Some t \<longleftrightarrow>
     get x (js ''id'') = Some (JString (id' t)) \<and>
     get x (js ''text'') = Some (JString (text' t)) \<and>
     get x (js ''completed'') = Some (JBoolean (completed t)) \<and>
     get x (js ''createdAt'') = Some (JNumber (createdAt t))"
  by (cases t) (auto simp: as_Todo_def split: option.splits jsvalue.splits)

lemma is_Todo_as_Todo: "is_Todo x \<longleftrightarrow> (\<exists>t. as_Todo x = Some t)"
proof
  assume "is_Todo x"
  then obtain i s c n where "get x (js ''id'') = Some (JString i)"
    "get x (js ''text'') = Some (JString s)" "get x (js ''completed'') = Some (JBoolean c)"
    "get x (js ''createdAt'') = Some (JNumber n)"
    by (auto simp: is_Todo_iff)
  then have "as_Todo x = Some \<lparr>id' = i, text' = s, completed = c, createdAt = n\<rparr>"
    by (simp add: as_Todo_def)
  then show "\<exists>t. as_Todo x = Some t" ..
next
  assume "\<exists>t. as_Todo x = Some t"
  then show "is_Todo x"
    by (auto simp: as_Todo_Some_iff is_Todo_iff)
qed

lemma map_filter_guard:
  "List.map_filter as_Todo (filter is_Todo xs) = List.map_filter as_Todo xs"
  by (induction xs) (auto simp: is_Todo_as_Todo split: option.splits)

lemma as_Todo_value: "as_Todo (Todo_value t) = Some t"
  by (simp add: as_Todo_Some_iff get_Todo_value)

lemma is_Todo_value: "is_Todo (Todo_value t)"
  by (simp add: is_Todo_as_Todo as_Todo_value)

lemma as_Todo_saved: "is_finite (createdAt t) \<Longrightarrow> as_Todo (json_of (Todo_value t)) = Some t"
  by (simp add: as_Todo_Some_iff get_json_of_Todo_value)

lemma map_filter_saved:
  "\<forall>t\<in>set C. is_finite (createdAt t) \<Longrightarrow>
   List.map_filter as_Todo (map json_of (map Todo_value C)) = C"
  by (induction C) (simp_all add: as_Todo_saved)

lemma loadTodos_array:
  assumes "getItem ls STORAGE_KEY = Inr (Some raw)" "raw \<noteq> []"
    "JSON_parse P raw = Some (JArray xs)"
  shows "loadTodos P ls = List.map_filter as_Todo xs"
  using assms by (simp add: loadTodos_def loadTodos_try_def map_filter_guard)

lemma saveTodos_Inr:
  assumes "saveTodos P C ls = Inr ls'"
  shows "getItem ls' STORAGE_KEY = Inr (Some (JSON_stringify P (JArray (map Todo_value C))))"
  using assms by (auto simp: saveTodos_def setItem_def getItem_def split: if_splits)

subsection \<open>The example platform and storages\<close>

lemma texts_distinct:
  "overflow_text \<noteq> two_todos_text"
  "null_text \<noteq> two_todos_text" "null_text \<noteq> overflow_text"
  "settings_text \<noteq> two_todos_text" "settings_text \<noteq> overflow_text"
  "settings_text \<noteq> null_text"
  "mixed_text \<noteq> two_todos_text" "mixed_text \<noteq> overflow_text" "mixed_text \<noteq> null_text"
  "mixed_text \<noteq> settings_text"
  "twice_text \<noteq> two_todos_text" "twice_text \<noteq> overflow_text" "twice_text \<noteq> null_text"
  "twice_text \<noteq> settings_text" "twice_text \<noteq> mixed_text"
  "truncated_text \<noteq> two_todos_text" "truncated_text \<noteq> overflow_text"
  "truncated_text \<noteq> null_text" "truncated_text \<noteq> settings_text"
  "truncated_text \<noteq> mixed_text" "truncated_text \<noteq> twice_text"
  by (simp_all add: two_todos_text_def overflow_text_def null_text_def settings_text_def
      mixed_text_def twice_text_def truncated_text_def js_def)

lemma texts_not_empty:
  "two_todos_text \<noteq> []" "overflow_text \<noteq> []" "null_text \<noteq> []" "settings_text \<noteq> []"
  "mixed_text \<noteq> []" "twice_text \<noteq> []" "truncated_text \<noteq> []"
  by (simp_all add: two_todos_text_def overflow_text_def null_text_def settings_text_def
      mixed_text_def twice_text_def truncated_text_def js_def)

lemma texts_fit: "length two_todos_text \<le> 5242880" "length null_text \<le> 5242880"
  by (simp_all add: two_todos_text_def null_text_def js_def)

lemma parse_example:
  "JSON_parse example_platform two_todos_text = Some (JArray (map Todo_value two_todos))"
  "JSON_parse example_platform overflow_text = Some (JArray (map Todo_value inf_todos))"
  "JSON_parse example_platform null_text =
     Some (JArray [JObject [(js ''id'', JString uuid_milk),
                            (js ''text'', JString (js ''Buy milk'')),
                            (js ''completed'', JBoolean False),
                            (js ''createdAt'', JNull)]])"
  "JSON_parse example_platform settings_text =
     Some (JObject [(js ''theme'', JString (js ''dark''))])"
  "JSON_parse example_platform mixed_text = Some (JArray [Todo_value todo_dog, malformed_value])"
  "JSON_parse example_platform twice_text =
     Some (JArray [Todo_value todo_milk, Todo_value todo_milk])"
  "JSON_parse example_platform truncated_text = None"
  by (simp_all add: example_platform_def texts_distinct)

lemma stringify_example:
  "JSON_stringify example_platform (JArray (map Todo_value two_todos)) = two_todos_text"
  "JSON_stringify example_platform (JArray (map Todo_value inf_todos)) = null_text"
  by (simp_all add: example_platform_def two_todos_def inf_todos_def)

lemma getItem_storage_with: "getItem (storage_with raw) STORAGE_KEY = Inr raw"
  by (simp add: getItem_def storage_with_def)

lemma getItem_blocked: "getItem blocked_storage k = Inl SecurityError"
  by (simp add: getItem_def blocked_storage_def)

lemma setItem_storage_with:
  "length v \<le> 5242880 \<Longrightarrow>
   setItem (storage_with raw) STORAGE_KEY v = Inr (storage_with (Some v))"
  by (auto simp: setItem_def storage_with_def fun_eq_iff)

lemma codec_two: "json_codec example_platform (JArray (map Todo_value two_todos))"
  by (simp add: json_codec_def stringify_example parse_example texts_not_empty)
     (simp add: two_todos_def Todo_value_def todo_dog_def todo_milk_def)

lemma codec_inf: "json_codec example_platform (JArray (map Todo_value inf_todos))"
  by (simp add: json_codec_def stringify_example parse_example texts_not_empty)
     (simp add: inf_todos_def Todo_value_def todo_milk_def)

lemma not_is_Todo_malformed: "\<not> is_Todo malformed_value"
  by (simp add: is_Todo_def malformed_value_def keys_distinct)

lemma load_nothing: "loadTodos example_platform (storage_with None) = []"
  by (simp add: loadTodos_def loadTodos_try_def getItem_storage_with)

lemma load_twice:
  "loadTodos example_platform (storage_with (Some twice_text)) = [todo_milk, todo_milk]"
  by (simp add: loadTodos_def loadTodos_try_def getItem_storage_with parse_example
      texts_not_empty is_Todo_value as_Todo_value List.map_filter_simps)

subsection \<open>The round trip\<close>

text \<open>
  C5, as the code has it. Let every record of the collection have a finite creation time,
  let the platform's \<open>JSON.parse\<close> read back what its \<open>JSON.stringify\<close> wrote for the
  collection, and let the write to the storage succeed. Then loading from the storage
  that \<open>saveTodos\<close> leaves gives the collection back, record by record and in order.
\<close>

theorem save_load_roundtrip:
  assumes "\<forall>t\<in>set C. is_finite (createdAt t)"
    and "json_codec P (JArray (map Todo_value C))"
    and "saveTodos P C ls = Inr ls'"
  shows "loadTodos P ls' = C"
proof -
  let ?text = "JSON_stringify P (JArray (map Todo_value C))"
  have "getItem ls' STORAGE_KEY = Inr (Some ?text)"
    using assms(3) by (rule saveTodos_Inr)
  moreover have "?text \<noteq> []"
    using assms(2) by (simp add: json_codec_def)
  moreover have "JSON_parse P ?text = Some (JArray (map json_of (map Todo_value C)))"
    using assms(2) by (simp add: json_codec_def)
  ultimately have "loadTodos P ls' = List.map_filter as_Todo (map json_of (map Todo_value C))"
    by (rule loadTodos_array)
  also have "\<dots> = C"
    using assms(1) by (rule map_filter_saved)
  finally show ?thesis .
qed

theorem save_load_roundtrip_witness:
  "list_all (\<lambda>t. is_finite (createdAt t)) two_todos \<and>
   json_codec example_platform (JArray (map Todo_value two_todos)) \<and>
   saveTodos example_platform two_todos (storage_with None) =
     Inr (storage_with (Some two_todos_text)) \<and>
   loadTodos example_platform (storage_with (Some two_todos_text)) = two_todos"
proof -
  have fin: "\<forall>t\<in>set two_todos. is_finite (createdAt t)"
    by (simp add: two_todos_def todo_dog_def todo_milk_def)
  have saved: "saveTodos example_platform two_todos (storage_with None) =
      Inr (storage_with (Some two_todos_text))"
    by (simp add: saveTodos_def stringify_example setItem_storage_with texts_fit)
  show ?thesis
    using fin codec_two saved save_load_roundtrip [OF fin codec_two saved]
    by (simp add: list_all_iff)
qed

text \<open>
  C5 as the specification states it fails for a record whose \<open>createdAt\<close> is a number
  that is not finite. Such a record comes out of \<open>loadTodos\<close> itself when the stored
  number is too large for a double. \<open>Infinity\<close> is a number for \<open>typeof\<close>,
  \<open>JSON.stringify\<close> writes it as \<open>null\<close> (as it does \<open>NaN\<close>), and the guard of
  \<open>loadTodos\<close> then drops the record.
\<close>

theorem save_load_infinity_counterexample:
  "loadTodos example_platform (storage_with (Some overflow_text)) = inf_todos \<and>
   json_codec example_platform (JArray (map Todo_value inf_todos)) \<and>
   saveTodos example_platform inf_todos (storage_with (Some overflow_text)) =
     Inr (storage_with (Some null_text)) \<and>
   loadTodos example_platform (storage_with (Some null_text)) = [] \<and>
   loadTodos example_platform (storage_with (Some null_text)) \<noteq> inf_todos"
proof -
  have first: "loadTodos example_platform (storage_with (Some overflow_text)) = inf_todos"
    by (simp add: loadTodos_def loadTodos_try_def getItem_storage_with parse_example
        texts_not_empty inf_todos_def is_Todo_value as_Todo_value List.map_filter_simps)
  have saved: "saveTodos example_platform inf_todos (storage_with (Some overflow_text)) =
      Inr (storage_with (Some null_text))"
    by (simp add: saveTodos_def stringify_example setItem_storage_with texts_fit)
  have loaded: "loadTodos example_platform (storage_with (Some null_text)) = []"
    by (simp add: loadTodos_def loadTodos_try_def getItem_storage_with parse_example
        texts_not_empty is_Todo_def keys_distinct)
  show ?thesis
    using first codec_inf saved loaded by (simp add: inf_todos_def)
qed

subsection \<open>Loading from a slot in any state\<close>

lemma list_all2_map_filter:
  assumes guard: "\<And>x. P x \<longleftrightarrow> W x"
    and reads: "\<And>x t. f x = Some t \<Longrightarrow> R t x"
    and total: "\<And>x. P x \<Longrightarrow> \<exists>t. f x = Some t"
  shows "list_all2 R (List.map_filter f (filter P xs)) (filter W xs)"
proof (induction xs)
  case Nil
  show ?case by (simp add: List.map_filter_simps)
next
  case (Cons x xs)
  show ?case
  proof (cases "P x")
    case True
    then obtain t where t: "f x = Some t"
      using total by blast
    with True Cons.IH reads [OF t] guard [of x] show ?thesis
      by (simp add: List.map_filter_simps)
  next
    case False
    with Cons.IH guard [of x] show ?thesis
      by simp
  qed
qed

lemma loaded_fields:
  "list_all2
     (\<lambda>t x. get x (js ''id'') = Some (JString (id' t)) \<and>
            get x (js ''text'') = Some (JString (text' t)) \<and>
            get x (js ''completed'') = Some (JBoolean (completed t)) \<and>
            get x (js ''createdAt'') = Some (JNumber (createdAt t)))
     (List.map_filter as_Todo (filter is_Todo xs))
     (filter (\<lambda>x. \<exists>i s c n. get x (js ''id'') = Some (JString i) \<and>
                get x (js ''text'') = Some (JString s) \<and>
                get x (js ''completed'') = Some (JBoolean c) \<and>
                get x (js ''createdAt'') = Some (JNumber n)) xs)"
proof (rule list_all2_map_filter)
  fix x
  show "is_Todo x \<longleftrightarrow>
      (\<exists>i s c n. get x (js ''id'') = Some (JString i) \<and>
         get x (js ''text'') = Some (JString s) \<and>
         get x (js ''completed'') = Some (JBoolean c) \<and>
         get x (js ''createdAt'') = Some (JNumber n))"
    by (rule is_Todo_iff)
next
  fix x t
  assume "as_Todo x = Some t"
  with as_Todo_Some_iff [of x t]
  show "get x (js ''id'') = Some (JString (id' t)) \<and>
      get x (js ''text'') = Some (JString (text' t)) \<and>
      get x (js ''completed'') = Some (JBoolean (completed t)) \<and>
      get x (js ''createdAt'') = Some (JNumber (createdAt t))"
    by (rule iffD1)
next
  fix x
  assume "is_Todo x"
  then show "\<exists>t. as_Todo x = Some t"
    by (simp add: is_Todo_as_Todo)
qed

text \<open>
  C6. \<open>loadTodos\<close> returns a collection whatever it finds: its \<open>catch\<close> turns
  every exception of the \<open>try\<close> block into the empty collection and leaves none to the
  caller. The collection is empty when reading the storage throws, when
  the slot is absent or holds the empty text, when its text does not parse and when it
  parses to a value that is not an array. When the text parses to an array, the collection
  consists of the elements that pass the guard, in their order, each read as a record:
  the loaded records correspond one to one, in order, to the elements whose \<open>id\<close> and
  \<open>text\<close> are strings, whose \<open>completed\<close> is a boolean and whose \<open>createdAt\<close> is a
  number, and the four fields of each loaded record are the four stored values. The guard
  accepts exactly the values of that shape, and reading a value as a record gives exactly
  the record of its four fields. A field of a value is the property of that name of an
  object; a value that is not an object has none.
\<close>

theorem loadTodos_degrades:
  "(loadTodos_try P ls = Inl ex \<longrightarrow> loadTodos P ls = []) \<and>
   (getItem ls STORAGE_KEY = Inl ex \<longrightarrow> loadTodos P ls = []) \<and>
   (getItem ls STORAGE_KEY = Inr None \<longrightarrow> loadTodos P ls = []) \<and>
   (getItem ls STORAGE_KEY = Inr (Some []) \<longrightarrow> loadTodos P ls = []) \<and>
   (getItem ls STORAGE_KEY = Inr (Some raw) \<and> JSON_parse P raw = None \<longrightarrow>
      loadTodos P ls = []) \<and>
   (getItem ls STORAGE_KEY = Inr (Some raw) \<and> JSON_parse P raw = Some v \<and>
      (\<forall>xs. v \<noteq> JArray xs) \<longrightarrow> loadTodos P ls = []) \<and>
   (getItem ls STORAGE_KEY = Inr (Some raw) \<and> raw \<noteq> [] \<and>
      JSON_parse P raw = Some (JArray xs) \<longrightarrow>
      loadTodos P ls = List.map_filter as_Todo (filter is_Todo xs) \<and>
      map Some (loadTodos P ls) = map as_Todo (filter is_Todo xs) \<and>
      list_all2
        (\<lambda>t x. get x (js ''id'') = Some (JString (id' t)) \<and>
               get x (js ''text'') = Some (JString (text' t)) \<and>
               get x (js ''completed'') = Some (JBoolean (completed t)) \<and>
               get x (js ''createdAt'') = Some (JNumber (createdAt t)))
        (loadTodos P ls)
        (filter (\<lambda>x. \<exists>i s c n. get x (js ''id'') = Some (JString i) \<and>
                   get x (js ''text'') = Some (JString s) \<and>
                   get x (js ''completed'') = Some (JBoolean c) \<and>
                   get x (js ''createdAt'') = Some (JNumber n)) xs)) \<and>
   (is_Todo x \<longleftrightarrow>
      (\<exists>i s c n. get x (js ''id'') = Some (JString i) \<and>
         get x (js ''text'') = Some (JString s) \<and>
         get x (js ''completed'') = Some (JBoolean c) \<and>
         get x (js ''createdAt'') = Some (JNumber n))) \<and>
   (as_Todo x = Some t \<longleftrightarrow>
      get x (js ''id'') = Some (JString (id' t)) \<and>
      get x (js ''text'') = Some (JString (text' t)) \<and>
      get x (js ''completed'') = Some (JBoolean (completed t)) \<and>
      get x (js ''createdAt'') = Some (JNumber (createdAt t))) \<and>
   get (JObject ps) p = map_of ps p \<and>
   ((\<forall>ps. y \<noteq> JObject ps) \<longrightarrow> get y p = None)"
proof (intro conjI impI)
  assume "loadTodos_try P ls = Inl ex"
  then show "loadTodos P ls = []"
    by (simp add: loadTodos_def)
next
  assume "getItem ls STORAGE_KEY = Inl ex"
  then show "loadTodos P ls = []"
    by (simp add: loadTodos_def loadTodos_try_def)
next
  assume "getItem ls STORAGE_KEY = Inr None"
  then show "loadTodos P ls = []"
    by (simp add: loadTodos_def loadTodos_try_def)
next
  assume "getItem ls STORAGE_KEY = Inr (Some [])"
  then show "loadTodos P ls = []"
    by (simp add: loadTodos_def loadTodos_try_def)
next
  assume "getItem ls STORAGE_KEY = Inr (Some raw) \<and> JSON_parse P raw = None"
  then show "loadTodos P ls = []"
    by (simp add: loadTodos_def loadTodos_try_def)
next
  assume "getItem ls STORAGE_KEY = Inr (Some raw) \<and> JSON_parse P raw = Some v \<and>
      (\<forall>xs. v \<noteq> JArray xs)"
  then show "loadTodos P ls = []"
    by (cases v) (simp_all add: loadTodos_def loadTodos_try_def)
next
  assume "getItem ls STORAGE_KEY = Inr (Some raw) \<and> raw \<noteq> [] \<and>
      JSON_parse P raw = Some (JArray xs)"
  then have eq: "loadTodos P ls = List.map_filter as_Todo (filter is_Todo xs)"
    by (simp add: loadTodos_def loadTodos_try_def)
  show "loadTodos P ls = List.map_filter as_Todo (filter is_Todo xs)"
    by (rule eq)
  have "map Some (List.map_filter as_Todo (filter is_Todo xs)) = map as_Todo (filter is_Todo xs)"
    by (induction xs) (auto simp: is_Todo_as_Todo)
  then show "map Some (loadTodos P ls) = map as_Todo (filter is_Todo xs)"
    by (simp only: eq)
  show "list_all2
        (\<lambda>t x. get x (js ''id'') = Some (JString (id' t)) \<and>
               get x (js ''text'') = Some (JString (text' t)) \<and>
               get x (js ''completed'') = Some (JBoolean (completed t)) \<and>
               get x (js ''createdAt'') = Some (JNumber (createdAt t)))
        (loadTodos P ls)
        (filter (\<lambda>x. \<exists>i s c n. get x (js ''id'') = Some (JString i) \<and>
                   get x (js ''text'') = Some (JString s) \<and>
                   get x (js ''completed'') = Some (JBoolean c) \<and>
                   get x (js ''createdAt'') = Some (JNumber n)) xs)"
    unfolding eq by (rule loaded_fields)
next
  show "is_Todo x \<longleftrightarrow>
      (\<exists>i s c n. get x (js ''id'') = Some (JString i) \<and>
         get x (js ''text'') = Some (JString s) \<and>
         get x (js ''completed'') = Some (JBoolean c) \<and>
         get x (js ''createdAt'') = Some (JNumber n))"
    by (rule is_Todo_iff)
next
  show "as_Todo x = Some t \<longleftrightarrow>
      get x (js ''id'') = Some (JString (id' t)) \<and>
      get x (js ''text'') = Some (JString (text' t)) \<and>
      get x (js ''completed'') = Some (JBoolean (completed t)) \<and>
      get x (js ''createdAt'') = Some (JNumber (createdAt t))"
    by (rule as_Todo_Some_iff)
next
  show "get (JObject ps) p = map_of ps p"
    by simp
next
  assume "\<forall>ps. y \<noteq> JObject ps"
  then show "get y p = None"
    by (cases y) simp_all
qed

theorem loadTodos_degrades_witness:
  "loadTodos_try example_platform blocked_storage = Inl SecurityError \<and>
   loadTodos example_platform blocked_storage = [] \<and>
   loadTodos example_platform (storage_with None) = [] \<and>
   loadTodos example_platform (storage_with (Some [])) = [] \<and>
   loadTodos example_platform (storage_with (Some truncated_text)) = [] \<and>
   loadTodos example_platform (storage_with (Some settings_text)) = [] \<and>
   is_Todo (Todo_value todo_dog) \<and> \<not> is_Todo malformed_value \<and>
   as_Todo (Todo_value todo_dog) = Some todo_dog \<and>
   get malformed_value (js ''id'') = Some (JNumber (Finite 7)) \<and>
   get malformed_value (js ''createdAt'') = None \<and>
   loadTodos example_platform (storage_with (Some mixed_text)) = [todo_dog]"
proof -
  note d = loadTodos_degrades [where P = example_platform]
  have blocked: "loadTodos_try example_platform blocked_storage = Inl SecurityError"
    by (simp add: loadTodos_try_def getItem_blocked)
  have 1: "loadTodos example_platform blocked_storage = []"
    using d [where ls = blocked_storage and ex = SecurityError] blocked by blast
  have 2: "loadTodos example_platform (storage_with None) = []"
    using d [where ls = "storage_with None"] getItem_storage_with [of None] by blast
  have 3: "loadTodos example_platform (storage_with (Some [])) = []"
    using d [where ls = "storage_with (Some [])"] getItem_storage_with [of "Some []"]
    by blast
  have 4: "loadTodos example_platform (storage_with (Some truncated_text)) = []"
    using d [where ls = "storage_with (Some truncated_text)" and raw = truncated_text]
      getItem_storage_with [of "Some truncated_text"] parse_example(7)
    by blast
  have 5: "loadTodos example_platform (storage_with (Some settings_text)) = []"
    using d [where ls = "storage_with (Some settings_text)" and raw = settings_text
        and v = "JObject [(js ''theme'', JString (js ''dark''))]"]
      getItem_storage_with [of "Some settings_text"] parse_example(4)
    by blast
  have good: "is_Todo (Todo_value todo_dog)"
    using d [where x = "Todo_value todo_dog"] get_Todo_value [of todo_dog] by blast
  have bad_id: "get malformed_value (js ''id'') = Some (JNumber (Finite 7))"
    by (simp add: malformed_value_def)
  have bad_at: "get malformed_value (js ''createdAt'') = None"
    by (simp add: malformed_value_def keys_distinct)
  have bad: "\<not> is_Todo malformed_value"
    using d [where x = malformed_value] bad_at by auto
  have reading: "as_Todo (Todo_value todo_dog) = Some todo_dog"
    using d [where x = "Todo_value todo_dog" and t = todo_dog] get_Todo_value [of todo_dog]
    by blast
  have "loadTodos example_platform (storage_with (Some mixed_text)) =
      List.map_filter as_Todo (filter is_Todo [Todo_value todo_dog, malformed_value])"
    using d [where ls = "storage_with (Some mixed_text)" and raw = mixed_text
        and xs = "[Todo_value todo_dog, malformed_value]"]
      getItem_storage_with [of "Some mixed_text"] parse_example(5) texts_not_empty(5)
    by blast
  then have 6: "loadTodos example_platform (storage_with (Some mixed_text)) = [todo_dog]"
    using good bad reading by (simp add: List.map_filter_simps)
  show ?thesis
    using blocked 1 2 3 4 5 good bad reading bad_id bad_at 6 by simp
qed

section \<open>The reducer does not change what exists\<close>

lemma toggle_refs_hit:
  "id' (objects h ! r) = i \<Longrightarrow>
   toggle_refs i (r # rs) h =
     (case toggle_refs i rs
             (h\<lparr>objects :=
                  objects h @ [(objects h ! r)\<lparr>completed := \<not> completed (objects h ! r)\<rparr>]\<rparr>) of
        (rs', h') \<Rightarrow> (length (objects h) # rs', h'))"
  by (simp add: new_object_def Let_def)

lemma toggle_refs_miss:
  "id' (objects h ! r) \<noteq> i \<Longrightarrow>
   toggle_refs i (r # rs) h = (case toggle_refs i rs h of (rs', h') \<Rightarrow> (r # rs', h'))"
  by simp

lemma prefix_nth: "prefix xs ys \<Longrightarrow> k < length xs \<Longrightarrow> ys ! k = xs ! k"
  by (auto simp: prefix_def nth_append)

lemma prefix_map_nth:
  "prefix xs ys \<Longrightarrow> list_all (\<lambda>r. r < length xs) rs \<Longrightarrow> map ((!) ys) rs = map ((!) xs) rs"
  by (simp add: list_all_iff prefix_nth)

lemma prefix_list_all_less:
  "prefix xs ys \<Longrightarrow> list_all (\<lambda>r. r < length xs) rs \<Longrightarrow> list_all (\<lambda>r. r < length ys) rs"
  by (auto simp: list_all_iff prefix_def)

lemma toggle_refs_frame:
  "toggle_refs i rs h = (rs', h') \<Longrightarrow> prefix (objects h) (objects h') \<and> arrays h' = arrays h"
proof (induction rs arbitrary: h rs' h')
  case Nil
  then show ?case by simp
next
  case (Cons r rs)
  show ?case
  proof (cases "id' (objects h ! r) = i")
    case True
    let ?h1 = "h\<lparr>objects :=
                   objects h @ [(objects h ! r)\<lparr>completed := \<not> completed (objects h ! r)\<rparr>]\<rparr>"
    obtain rs1 h1 where rec: "toggle_refs i rs ?h1 = (rs1, h1)"
      by (cases "toggle_refs i rs ?h1")
    from Cons.prems rec have "h' = h1"
      unfolding toggle_refs_hit [OF True] by simp
    moreover from Cons.IH [OF rec]
    have "prefix (objects ?h1) (objects h1)" "arrays h1 = arrays ?h1"
      by simp_all
    ultimately show ?thesis
      by (auto dest: append_prefixD)
  next
    case False
    obtain rs1 h1 where rec: "toggle_refs i rs h = (rs1, h1)"
      by (cases "toggle_refs i rs h")
    from Cons.prems rec have "h' = h1"
      unfolding toggle_refs_miss [OF False] by simp
    with Cons.IH [OF rec] show ?thesis by simp
  qed
qed

lemma toggle_refs_refines:
  "list_all (\<lambda>r. r < length (objects h)) rs \<Longrightarrow> toggle_refs i rs h = (rs', h') \<Longrightarrow>
   map ((!) (objects h')) rs' =
     map (\<lambda>t. if id' t = i then t\<lparr>completed := \<not> completed t\<rparr> else t)
       (map ((!) (objects h)) rs) \<and>
   list_all (\<lambda>r. r < length (objects h')) rs'"
proof (induction rs arbitrary: h rs' h')
  case Nil
  then show ?case by simp
next
  case (Cons r rs)
  from Cons.prems(1) have r: "r < length (objects h)"
    and rs: "list_all (\<lambda>r. r < length (objects h)) rs"
    by simp_all
  show ?case
  proof (cases "id' (objects h ! r) = i")
    case True
    let ?t = "(objects h ! r)\<lparr>completed := \<not> completed (objects h ! r)\<rparr>"
    let ?h1 = "h\<lparr>objects := objects h @ [?t]\<rparr>"
    obtain rs1 h1 where rec: "toggle_refs i rs ?h1 = (rs1, h1)"
      by (cases "toggle_refs i rs ?h1")
    from Cons.prems(2) rec have res: "rs' = length (objects h) # rs1" "h' = h1"
      unfolding toggle_refs_hit [OF True] by simp_all
    have grow: "prefix (objects h) (objects ?h1)"
      by simp
    have rs1: "list_all (\<lambda>r. r < length (objects ?h1)) rs"
      using grow rs by (rule prefix_list_all_less)
    have same: "map ((!) (objects ?h1)) rs = map ((!) (objects h)) rs"
      using grow rs by (rule prefix_map_nth)
    from toggle_refs_frame [OF rec] have pre: "prefix (objects ?h1) (objects h1)"
      by simp
    have new: "length (objects h) < length (objects ?h1)"
      by simp
    have "objects h1 ! length (objects h) = objects ?h1 ! length (objects h)"
      using pre new by (rule prefix_nth)
    then have hd: "objects h1 ! length (objects h) = ?t"
      by simp
    have lt: "length (objects h) < length (objects h1)"
      using new prefix_length_le [OF pre] by linarith
    from Cons.IH [OF rs1 rec] same
    have "map ((!) (objects h1)) rs1 =
        map (\<lambda>t. if id' t = i then t\<lparr>completed := \<not> completed t\<rparr> else t)
          (map ((!) (objects h)) rs)"
      and "list_all (\<lambda>r. r < length (objects h1)) rs1"
      by simp_all
    with res hd lt True show ?thesis
      by simp
  next
    case False
    obtain rs1 h1 where rec: "toggle_refs i rs h = (rs1, h1)"
      by (cases "toggle_refs i rs h")
    from Cons.prems(2) rec have res: "rs' = r # rs1" "h' = h1"
      unfolding toggle_refs_miss [OF False] by simp_all
    from toggle_refs_frame [OF rec] have pre: "prefix (objects h) (objects h1)"
      by simp
    have hd: "objects h1 ! r = objects h ! r"
      using pre r by (rule prefix_nth)
    have lt: "r < length (objects h1)"
      using r prefix_length_le [OF pre] by linarith
    from Cons.IH [OF rs rec] res hd lt False show ?thesis
      by simp
  qed
qed

text \<open>Every object and every array of the old heap is in the new heap, as it was.\<close>

lemma todosReducer_heap_frame:
  assumes "todosReducer_heap e h state a = (state', h')"
  shows "prefix (objects h) (objects h') \<and> prefix (arrays h) (arrays h')"
proof (cases a)
  case (Add t)
  with assms show ?thesis
    by (auto simp: new_object_def new_array_def split: if_splits)
next
  case (Toggle i)
  obtain rs h1 where t: "toggle_refs i (arrays h ! state) h = (rs, h1)"
    by (cases "toggle_refs i (arrays h ! state) h")
  from toggle_refs_frame [OF t] assms Toggle t show ?thesis
    by (auto simp: new_array_def)
next
  case (Remove i)
  with assms show ?thesis by (auto simp: new_array_def)
next
  case ClearCompleted
  with assms show ?thesis by (auto simp: new_array_def)
next
  case (Hydrate r)
  with assms show ?thesis by auto
qed

text \<open>The reducer on the heap computes what the reducer on values computes.\<close>

lemma todosReducer_heap_refines:
  assumes "valid_array h state"
    and "\<forall>p. a = Hydrate p \<longrightarrow> valid_array h p"
    and "todosReducer_heap e h state a = (state', h')"
  shows "todos_at h' state' = todosReducer e (todos_at h state) (map_Action (todos_at h) a) \<and>
         valid_array h' state'"
proof (cases a)
  case (Add t)
  show ?thesis
  proof (cases "trim t = []")
    case True
    with assms(1,3) Add show ?thesis by simp
  next
    case False
    let ?new = "\<lparr>id' = randomUUID e, text' = trim t, completed = False,
                 createdAt = Finite (of_int (Date_now e))\<rparr>"
    from assms(3) Add False
    have res: "state' = length (arrays h)"
      "h' = h\<lparr>objects := objects h @ [?new],
               arrays := arrays h @ [length (objects h) # arrays h ! state]\<rparr>"
      by (simp_all add: new_object_def new_array_def)
    from assms(1) have old: "list_all (\<lambda>r. r < length (objects h)) (arrays h ! state)"
      by (simp add: valid_array_def)
    have grow: "prefix (objects h) (objects h @ [?new])"
      by simp
    have "map ((!) (objects h @ [?new])) (arrays h ! state) =
        map ((!) (objects h)) (arrays h ! state)"
      using grow old by (rule prefix_map_nth)
    moreover have "list_all (\<lambda>r. r < length (objects h @ [?new])) (arrays h ! state)"
      using grow old by (rule prefix_list_all_less)
    ultimately show ?thesis
      using res Add False by (simp add: todos_at_def valid_array_def)
  qed
next
  case (Toggle i)
  obtain rs h1 where t: "toggle_refs i (arrays h ! state) h = (rs, h1)"
    by (cases "toggle_refs i (arrays h ! state) h")
  from assms(1) have v: "list_all (\<lambda>r. r < length (objects h)) (arrays h ! state)"
    by (simp add: valid_array_def)
  from assms(3) Toggle t
  have res: "state' = length (arrays h1)" "h' = h1\<lparr>arrays := arrays h1 @ [rs]\<rparr>"
    by (simp_all add: new_array_def)
  with toggle_refs_refines [OF v t] Toggle show ?thesis
    by (simp add: todos_at_def valid_array_def)
next
  case (Remove i)
  from assms(1)
  have "list_all (\<lambda>r. r < length (objects h))
      (filter (\<lambda>r. id' (objects h ! r) \<noteq> i) (arrays h ! state))"
    by (simp add: valid_array_def list_all_iff)
  with assms(3) Remove show ?thesis
    by (auto simp: new_array_def todos_at_def valid_array_def filter_map comp_def)
next
  case ClearCompleted
  from assms(1)
  have "list_all (\<lambda>r. r < length (objects h))
      (filter (\<lambda>r. \<not> completed (objects h ! r)) (arrays h ! state))"
    by (simp add: valid_array_def list_all_iff)
  with assms(3) ClearCompleted show ?thesis
    by (auto simp: new_array_def todos_at_def valid_array_def filter_map comp_def)
next
  case (Hydrate r)
  with assms show ?thesis by simp
qed

text \<open>A collection that the heap held before the call is the same collection after it.\<close>

lemma todosReducer_heap_keeps:
  assumes "valid_array h a" and "todosReducer_heap e h state b = (state', h')"
  shows "todos_at h' a = todos_at h a"
proof -
  from todosReducer_heap_frame [OF assms(2)]
  have objs: "prefix (objects h) (objects h')" and arrs: "prefix (arrays h) (arrays h')"
    by simp_all
  from assms(1) have a: "a < length (arrays h)"
    and refs: "list_all (\<lambda>r. r < length (objects h)) (arrays h ! a)"
    by (simp_all add: valid_array_def)
  have "arrays h' ! a = arrays h ! a"
    using arrs a by (rule prefix_nth)
  moreover have "map ((!) (objects h')) (arrays h ! a) = map ((!) (objects h)) (arrays h ! a)"
    using objs refs by (rule prefix_map_nth)
  ultimately show ?thesis
    by (simp add: todos_at_def)
qed

lemma env_independent: "\<not> reads_env a \<Longrightarrow> todosReducer e1 C a = todosReducer e2 C a"
  by (cases a) (simp_all add: reads_env_def)

lemma toggle_example_heap:
  "todosReducer_heap env_dog example_heap 0 (Toggle uuid_milk) = (1, toggled_heap)"
  using uuid_dog_not_milk
  by (simp add: example_heap_def toggled_heap_def new_object_def new_array_def todo_dog_def
      todo_milk_def)

lemma valid_example_heap: "valid_array example_heap 0"
  by (simp add: valid_array_def example_heap_def)

text \<open>
  C7, as the code has it. The result of a transition is determined by the collection, the
  action and, where a record is added, by what \<open>crypto.randomUUID()\<close> and \<open>Date.now()\<close>
  return: every other transition gives the same collection whatever the two return, and
  an addition gives the same collection when they return the same. No transition writes
  to an object or an array that exists: the heap before the call is the beginning of the
  heap after it, the array returned stands for the collection that the reducer on values
  computes, and the array passed in still stands for the collection it stood for.
\<close>

theorem transitions_deterministic:
  "(\<not> reads_env a \<longrightarrow> todosReducer e1 C a = todosReducer e2 C a) \<and>
   (randomUUID e1 = randomUUID e2 \<and> Date_now e1 = Date_now e2 \<longrightarrow>
      todosReducer e1 C a = todosReducer e2 C a) \<and>
   (todosReducer_heap e h state b = (state', h') \<longrightarrow>
      prefix (objects h) (objects h') \<and> prefix (arrays h) (arrays h')) \<and>
   (valid_array h state \<and> (\<forall>p. b = Hydrate p \<longrightarrow> valid_array h p) \<and>
    todosReducer_heap e h state b = (state', h') \<longrightarrow>
      todos_at h' state' = todosReducer e (todos_at h state) (map_Action (todos_at h) b) \<and>
      todos_at h' state = todos_at h state)"
proof (intro conjI impI)
  assume "\<not> reads_env a"
  then show "todosReducer e1 C a = todosReducer e2 C a"
    by (rule env_independent)
next
  assume "randomUUID e1 = randomUUID e2 \<and> Date_now e1 = Date_now e2"
  then have "e1 = e2" by simp
  then show "todosReducer e1 C a = todosReducer e2 C a" by simp
next
  assume "todosReducer_heap e h state b = (state', h')"
  then show "prefix (objects h) (objects h')" "prefix (arrays h) (arrays h')"
    by (simp_all add: todosReducer_heap_frame)
next
  assume *: "valid_array h state \<and> (\<forall>p. b = Hydrate p \<longrightarrow> valid_array h p) \<and>
    todosReducer_heap e h state b = (state', h')"
  then show "todos_at h' state' = todosReducer e (todos_at h state) (map_Action (todos_at h) b)"
    using todosReducer_heap_refines by blast
  from * show "todos_at h' state = todos_at h state"
    using todosReducer_heap_keeps by blast
qed

theorem transitions_deterministic_witness:
  "\<not> reads_env (Toggle uuid_milk :: Todo list Action) \<and>
   todosReducer env_milk [todo_dog, todo_milk] (Toggle uuid_milk) =
     todosReducer env_dog [todo_dog, todo_milk] (Toggle uuid_milk) \<and>
   todosReducer env_dog [todo_milk] (Add (js '' Walk dog  '')) =
     todosReducer \<lparr>randomUUID = uuid_dog, Date_now = 1730625060000\<rparr> [todo_milk]
       (Add (js '' Walk dog  '')) \<and>
   valid_array example_heap 0 \<and>
   todosReducer_heap env_dog example_heap 0 (Toggle uuid_milk) = (1, toggled_heap) \<and>
   prefix (objects example_heap) (objects toggled_heap) \<and>
   prefix (arrays example_heap) (arrays toggled_heap) \<and>
   todos_at toggled_heap 1 = [todo_dog, todo_milk\<lparr>completed := True\<rparr>] \<and>
   todos_at toggled_heap 0 = [todo_dog, todo_milk]"
proof -
  have a: "\<not> reads_env (Toggle uuid_milk :: Todo list Action)"
    by (simp add: reads_env_def)
  have b: "\<forall>p. (Toggle uuid_milk :: nat Action) = Hydrate p \<longrightarrow> valid_array example_heap p"
    by simp
  have c: "todos_at example_heap 0 = [todo_dog, todo_milk]"
    by (simp add: todos_at_def example_heap_def)
  have d: "todosReducer env_dog [todo_dog, todo_milk] (Toggle uuid_milk) =
      [todo_dog, todo_milk\<lparr>completed := True\<rparr>]"
    using uuid_dog_not_milk by (simp add: todo_dog_def todo_milk_def)
  have f: "randomUUID env_dog = randomUUID \<lparr>randomUUID = uuid_dog, Date_now = 1730625060000\<rparr> \<and>
      Date_now env_dog = Date_now \<lparr>randomUUID = uuid_dog, Date_now = 1730625060000\<rparr>"
    by (simp add: env_dog_def)
  show ?thesis
    using a b c d f valid_example_heap toggle_example_heap
      transitions_deterministic [where a = "Toggle uuid_milk" and ?e1.0 = env_milk
        and ?e2.0 = env_dog and C = "[todo_dog, todo_milk]" and e = env_dog
        and h = example_heap and state = 0 and b = "Toggle uuid_milk" and state' = 1
        and h' = toggled_heap]
      transitions_deterministic [where a = "Add (js '' Walk dog  '')" and ?e1.0 = env_dog
        and ?e2.0 = "\<lparr>randomUUID = uuid_dog, Date_now = 1730625060000\<rparr>"
        and C = "[todo_milk]"]
    by simp
qed

text \<open>
  C7 as the specification states it fails for an addition: the same collection and the
  same action give two different collections when the generator returns two different
  identifiers.
\<close>

theorem add_twice_differs_counterexample:
  "todosReducer env_milk [] (Add (js ''Buy milk'')) \<noteq>
   todosReducer env_dog [] (Add (js ''Buy milk''))"
  using uuid_dog_not_milk
  by (simp add: trim_buy_milk buy_milk_not_empty env_milk_def env_dog_def)

section \<open>Identifiers along a session\<close>

lemma step_unique:
  "distinct (map id' C) \<Longrightarrow> keeps_ids_unique e C a \<Longrightarrow>
   distinct (map id' (todosReducer e C a))"
  by (cases a) (auto simp: keeps_ids_unique_def toggle_ids distinct_map_filter
      simp del: todosReducer.simps(3))

lemma run_unique:
  "distinct (map id' C) \<Longrightarrow> unique_run C steps \<Longrightarrow> distinct (map id' (run C steps))"
  by (induction C steps rule: run.induct) (auto simp: step_unique simp del: todosReducer.simps)

lemma run_scenario: "run [] scenario = [todo_dog]"
  using uuid_dog_not_milk
  by (simp add: scenario_def load_nothing trim_buy_milk trim_walk_dog buy_milk_not_empty
      walk_dog_not_empty env_milk_def env_dog_def todo_dog_def)

lemma unique_scenario: "unique_run [] scenario"
  using uuid_dog_not_milk
  by (simp add: scenario_def load_nothing keeps_ids_unique_def trim_buy_milk trim_walk_dog
      buy_milk_not_empty walk_dog_not_empty env_milk_def env_dog_def)

text \<open>
  C8, as the code has it. Starting from the empty collection, the identifiers stay pairwise
  distinct along every sequence of transitions in which each addition receives an
  identifier that is not in use and each hydration receives records with pairwise distinct
  identifiers. The reducer itself checks neither, and \<open>loadTodos\<close> does not check the
  second.
\<close>

theorem ids_stay_unique:
  assumes "unique_run [] steps"
  shows "distinct (map id' (run [] steps))"
  using assms by (simp add: run_unique)

theorem ids_stay_unique_witness:
  "unique_run [] scenario \<and> run [] scenario = [todo_dog] \<and>
   distinct (map id' (run [] scenario))"
  using unique_scenario run_scenario ids_stay_unique [OF unique_scenario]
  by simp

text \<open>
  C8 as the specification states it fails after a hydration from a slot whose array holds
  an identifier twice: both elements pass the guard of \<open>loadTodos\<close>, and \<open>hydrate\<close>
  takes them as they are.
\<close>

theorem hydrate_duplicates_counterexample:
  "run [] [(env_milk, Hydrate (loadTodos example_platform (storage_with (Some twice_text))))] =
     [todo_milk, todo_milk] \<and>
   \<not> distinct (map id'
     (run [] [(env_milk, Hydrate (loadTodos example_platform (storage_with (Some twice_text))))]))"
  by (simp add: load_twice)

end
